theory Spec2Isabelle
  imports Main
begin

section \<open>The credential-input widget of credentials-input.tsx\<close>

text \<open>
  The component \<open>CredentialsInput\<close> keeps five pieces of React state and creates, in
  \<open>handleOAuthLogin\<close>, a popup window, an \<open>AbortController\<close>, a message listener bound to
  the controller's signal and a timer.  The browser objects are modelled as an explicit
  store: one \<open>auth_session\<close> per successful \<open>window.open\<close>, addressed by its position in
  the list, which is also the identity of its controller.  Calls that leave the component
  (\<open>api.oAuthLogin\<close>, \<open>oAuthCallback\<close>, \<open>onSelectCredentials\<close>) are appended to logs, and
  what the environment answers (the backend's responses, whether the browser opens the
  popup) is a parameter of the function that asks.
\<close>

subsection \<open>Data\<close>

text \<open>\<open>CredentialsType\<close> of the API types: the three strings the component compares with.\<close>

datatype credentials_type = api_key | oauth2 | user_password

text \<open>\<open>CredentialsMetaInput\<close>: what \<open>onSelectCredentials\<close> receives.\<close>

record credentials_meta_input =
  input_id :: string
  input_type :: credentials_type
  input_title :: "string option"
  input_provider :: string

text \<open>\<open>CredentialsMetaResponse\<close>: a saved credential, and what \<open>oAuthCallback\<close> resolves to.\<close>

record credentials_meta_response =
  resp_id :: string
  resp_provider :: string
  resp_type :: credentials_type
  resp_title :: "string option"
  resp_username :: "string option"

text \<open>
  \<open>OAuthPopupResultMessage\<close> without its discriminator, and \<open>e.data\<close> as the guard of
  \<open>handleMessage\<close> sees it: not an object, an object without \<open>message_type\<close>, or an
  object with a \<open>message_type\<close> and the payload.  (For \<open>null\<close> the \<open>in\<close> test of the
  guard throws and the handler ends there; like the ignored messages it sets nothing,
  and it has no constructor here.)
\<close>

datatype oauth_popup_result =
  Success (code: string) (state: string)
| Failure (message: string)

datatype message_data =
  NotAnObject
| NoMessageType
| Message string oauth_popup_result

text \<open>
  A thrown value, as the \<open>catch\<close> clause looks at it: an \<open>Error\<close> with its
  \<open>message\<close>, or anything else with the text \<open>String(error)\<close> gives.
\<close>

datatype thrown = ErrorObject string | OtherValue string

fun thrown_text :: "thrown \<Rightarrow> string" where
  "thrown_text (ErrorObject m) = m"
| "thrown_text (OtherValue s) = s"

text \<open>
  The objects one run of \<open>handleOAuthLogin\<close> creates after \<open>window.open\<close> succeeded.
  \<open>abort_reason\<close> is \<open>None\<close> while the controller's signal is not aborted;
  \<open>timer_armed\<close> holds the delay in milliseconds while the timer has not fired.
\<close>

record auth_session =
  state_token :: string
  login_url :: string
  popup_closed :: bool
  abort_reason :: "string option"
  listener_registered :: bool
  timer_armed :: "nat option"

record widget =
  isAPICredentialsModalOpen :: bool
  isUserPasswordCredentialsModalOpen :: bool
  isOAuth2FlowInProgress :: bool
  oAuthPopupController :: "nat option"
  oAuthError :: "string option"
  sessions :: "auth_session list"
  oAuthLogin_calls :: "(string \<times> string list) list"
  oAuthCallback_calls :: "(string \<times> string) list"
  onSelectCredentials_calls :: "credentials_meta_input option list"

text \<open>The component as first rendered: every \<open>useState\<close> at its initial value.\<close>

definition initial_widget :: widget where
  "initial_widget =
     \<lparr>isAPICredentialsModalOpen = False,
      isUserPasswordCredentialsModalOpen = False,
      isOAuth2FlowInProgress = False,
      oAuthPopupController = None,
      oAuthError = None,
      sessions = [],
      oAuthLogin_calls = [],
      oAuthCallback_calls = [],
      onSelectCredentials_calls = []\<rparr>"

subsection \<open>The abort controller\<close>

text \<open>
  \<open>controller.abort(reason)\<close>: nothing happens on a signal that is aborted already.
  Otherwise the reason is stored, the listener registered with the signal is removed,
  and \<open>onabort\<close> runs: \<open>setOAuth2FlowInProgress(false)\<close> and \<open>popup.close()\<close>.
  A controller exists only for a session of the store, so an index outside it is never
  passed; the model leaves the widget unchanged there.
\<close>

definition controller_abort :: "nat \<Rightarrow> string \<Rightarrow> widget \<Rightarrow> widget" where
  "controller_abort controller reason w =
     (if controller < length (sessions w) then
        (let s = sessions w ! controller in
         if abort_reason s \<noteq> None then w
         else w\<lparr>sessions := (sessions w)[controller :=
                    s\<lparr>abort_reason := Some reason,
                      listener_registered := False,
                      popup_closed := True\<rparr>],
                isOAuth2FlowInProgress := False\<rparr>)
      else w)"

subsection \<open>handleOAuthLogin\<close>

datatype login_error =
  AuthRequestError thrown
| PopupBlockedError string

text \<open>The part before \<open>await api.oAuthLogin(provider, schema.credentials_scopes)\<close>.\<close>

definition handleOAuthLogin_request :: "string \<Rightarrow> string list \<Rightarrow> widget \<Rightarrow> widget" where
  "handleOAuthLogin_request provider scopes w =
     w\<lparr>oAuthError := None,
       oAuthLogin_calls := oAuthLogin_calls w @ [(provider, scopes)]\<rparr>"

text \<open>
  The part after the \<open>await\<close>.  \<open>login_response\<close> is what the promise settles to and
  \<open>popup_opens\<close> whether \<open>window.open\<close> returns a handle.  The result is the error the
  async function rejects with, if any, and the widget it leaves.
\<close>

definition handleOAuthLogin_resume ::
  "(thrown + string \<times> string) \<Rightarrow> bool \<Rightarrow> widget \<Rightarrow> login_error option \<times> widget" where
  "handleOAuthLogin_resume login_response popup_opens w =
     (case login_response of
        Inl e \<Rightarrow> (Some (AuthRequestError e), w)
      | Inr (url, token) \<Rightarrow>
          (let w1 = w\<lparr>isOAuth2FlowInProgress := True\<rparr> in
           if \<not> popup_opens then
             (Some (PopupBlockedError
                ''Failed to open popup window. Please allow popups for this site.''), w1)
           else
             (let controller = length (sessions w1) in
              (None,
               w1\<lparr>oAuthPopupController := Some controller,
                  sessions := sessions w1 @
                    [\<lparr>state_token = token,
                      login_url = url,
                      popup_closed = False,
                      abort_reason = None,
                      listener_registered = True,
                      timer_armed = Some (5 * 60 * 1000)\<rparr>]\<rparr>))))"

definition handleOAuthLogin ::
  "string \<Rightarrow> string list \<Rightarrow> (thrown + string \<times> string) \<Rightarrow> bool \<Rightarrow> widget
     \<Rightarrow> login_error option \<times> widget" where
  "handleOAuthLogin provider scopes login_response popup_opens w =
     handleOAuthLogin_resume login_response popup_opens
       (handleOAuthLogin_request provider scopes w)"

subsection \<open>handleMessage\<close>

text \<open>
  The closure \<open>handleMessage\<close> captures \<open>state_token\<close>, \<open>controller\<close> and \<open>provider\<close>.
  \<open>handleMessage_receive\<close> is the handler up to \<open>await oAuthCallback(...)\<close>: it returns
  the widget and, when the call was made, its arguments.
\<close>

fun handleMessage_receive ::
  "string \<Rightarrow> message_data \<Rightarrow> widget \<Rightarrow> widget \<times> (string \<times> string) option" where
  "handleMessage_receive token NotAnObject w = (w, None)"
| "handleMessage_receive token NoMessageType w = (w, None)"
| "handleMessage_receive token (Message message_type result) w =
     (if message_type \<noteq> ''oauth_popup_result'' then (w, None)
      else case result of
        Failure m \<Rightarrow>
          (w\<lparr>oAuthError := Some (''OAuth flow failed: '' @ m),
             isOAuth2FlowInProgress := False\<rparr>, None)
      | Success c s \<Rightarrow>
          if s \<noteq> token then
            (w\<lparr>oAuthError := Some ''Invalid state token received'',
               isOAuth2FlowInProgress := False\<rparr>, None)
          else
            (w\<lparr>oAuthCallback_calls := oAuthCallback_calls w @ [(c, s)]\<rparr>, Some (c, s)))"

text \<open>The handler after the \<open>await\<close>: the \<open>try\<close> continues or \<open>catch\<close> runs, then \<open>finally\<close>.\<close>

definition handleMessage_settle ::
  "nat \<Rightarrow> string \<Rightarrow> (thrown + credentials_meta_response) \<Rightarrow> widget \<Rightarrow> widget" where
  "handleMessage_settle controller provider outcome w =
     (let w1 = (case outcome of
                  Inr credentials \<Rightarrow>
                    w\<lparr>onSelectCredentials_calls := onSelectCredentials_calls w @
                        [Some \<lparr>input_id = resp_id credentials,
                               input_type = oauth2,
                               input_title = resp_title credentials,
                               input_provider = provider\<rparr>]\<rparr>
                | Inl error \<Rightarrow>
                    w\<lparr>oAuthError := Some (''Error in OAuth callback: '' @ thrown_text error)\<rparr>)
      in controller_abort controller ''success'' (w1\<lparr>isOAuth2FlowInProgress := False\<rparr>))"

text \<open>
  The whole handler when nothing else runs while the exchange is awaited;
  \<open>backend\<close> is what \<open>oAuthCallback\<close> answers to a code and a state.
\<close>

definition handleMessage ::
  "string \<Rightarrow> nat \<Rightarrow> string \<Rightarrow> message_data
     \<Rightarrow> (string \<Rightarrow> string \<Rightarrow> thrown + credentials_meta_response) \<Rightarrow> widget \<Rightarrow> widget" where
  "handleMessage token controller provider data backend w =
     (case handleMessage_receive token data w of
        (w1, None) \<Rightarrow> w1
      | (w1, Some (c, s)) \<Rightarrow> handleMessage_settle controller provider (backend c s) w1)"

text \<open>
  A \<open>message\<close> event on the window.  Every listener still registered is called, in the
  order of registration, with the token and controller of its own session; each call
  runs up to its \<open>await\<close>, and the exchanges that were started are collected.
\<close>

definition listener_receives ::
  "message_data \<Rightarrow> nat \<Rightarrow> widget \<times> (nat \<times> string \<times> string) list
     \<Rightarrow> widget \<times> (nat \<times> string \<times> string) list" where
  "listener_receives data controller acc =
     (case acc of (w, pending) \<Rightarrow>
        if listener_registered (sessions w ! controller) then
          (case handleMessage_receive (state_token (sessions w ! controller)) data w of
             (w1, None) \<Rightarrow> (w1, pending)
           | (w1, Some (c, s)) \<Rightarrow> (w1, pending @ [(controller, c, s)]))
        else (w, pending))"

text \<open>An exchange that was started settles with the backend's answer.\<close>

definition exchange_settles ::
  "string \<Rightarrow> (string \<Rightarrow> string \<Rightarrow> thrown + credentials_meta_response)
     \<Rightarrow> nat \<times> string \<times> string \<Rightarrow> widget \<Rightarrow> widget" where
  "exchange_settles provider backend call w =
     (case call of (controller, c, s) \<Rightarrow>
        handleMessage_settle controller provider (backend c s) w)"

text \<open>
  The event as a whole when nothing else happens before the exchanges settle: first all
  listeners run, then the started exchanges settle in the order they were started.
\<close>

definition deliver_message ::
  "string \<Rightarrow> message_data \<Rightarrow> (string \<Rightarrow> string \<Rightarrow> thrown + credentials_meta_response)
     \<Rightarrow> widget \<Rightarrow> widget" where
  "deliver_message provider data backend w =
     (case fold (listener_receives data) [0..<length (sessions w)] (w, []) of
        (w1, pending) \<Rightarrow> fold (exchange_settles provider backend) pending w1)"

subsection \<open>The timer and the waiting dialog\<close>

text \<open>
  The callback given to \<open>setTimeout\<close> for the session of \<open>controller\<close>.  A timer fires
  once; the source never clears it.
\<close>

definition timeout_fires :: "nat \<Rightarrow> widget \<Rightarrow> widget" where
  "timeout_fires controller w =
     (if controller < length (sessions w) \<and> timer_armed (sessions w ! controller) \<noteq> None then
        (let w1 = w\<lparr>sessions := (sessions w)[controller :=
                       (sessions w ! controller)\<lparr>timer_armed := None\<rparr>]\<rparr>;
             w2 = controller_abort controller ''timeout'' w1
         in w2\<lparr>isOAuth2FlowInProgress := False, oAuthError := Some ''OAuth flow timed out''\<rparr>)
      else w)"

text \<open>\<open>onClose\<close> of \<open>OAuth2FlowWaitingModal\<close>: \<open>oAuthPopupController?.abort("canceled")\<close>.\<close>

definition waiting_modal_onClose :: "widget \<Rightarrow> widget" where
  "waiting_modal_onClose w =
     (case oAuthPopupController w of
        None \<Rightarrow> w
      | Some controller \<Rightarrow> controller_abort controller ''canceled'' w)"

subsection \<open>handleValueChange\<close>

text \<open>
  \<open>savedCredentials.find(...)!\<close> is \<open>undefined\<close> when nothing matches (the \<open>!\<close> is
  erased by the compiler), and reading \<open>.id\<close> of \<open>undefined\<close> throws a TypeError.
  \<open>handleOAuthLogin()\<close> is called without \<open>await\<close>, so its rejection does not reach
  \<open>handleValueChange\<close>.
\<close>

datatype js_error = TypeError

definition handleValueChange ::
  "string \<Rightarrow> string list \<Rightarrow> credentials_meta_response list
     \<Rightarrow> (thrown + string \<times> string) \<Rightarrow> bool \<Rightarrow> string \<Rightarrow> widget \<Rightarrow> js_error + widget" where
  "handleValueChange provider scopes savedCredentials login_response popup_opens newValue w =
     (if newValue = ''sign-in'' then
        Inr (snd (handleOAuthLogin provider scopes login_response popup_opens w))
      else if newValue = ''add-api-key'' then
        Inr (w\<lparr>isAPICredentialsModalOpen := True\<rparr>)
      else
        (case find (\<lambda>c. resp_id c = newValue) savedCredentials of
           None \<Rightarrow> Inl TypeError
         | Some selectedCreds \<Rightarrow>
             Inr (w\<lparr>onSelectCredentials_calls := onSelectCredentials_calls w @
                    [Some \<lparr>input_id = resp_id selectedCreds,
                           input_type = resp_type selectedCreds,
                           input_title = None,
                           input_provider = provider\<rparr>]\<rparr>)))"

subsection \<open>The two effects on the selection\<close>

text \<open>
  What \<open>useCredentials\<close> returns: \<open>null\<close>, the loading variant (no \<open>savedCredentials\<close>
  key), or the provider's data with its saved credentials.
\<close>

datatype credentials_data =
  NoCredentials
| IsLoading
| Loaded (savedCredentials: "credentials_meta_response list")

text \<open>
  The first \<open>useEffect\<close>; the value is the list of calls it makes to
  \<open>onSelectCredentials\<close> (\<open>None\<close> is \<open>undefined\<close>).
\<close>

definition deselect_effect ::
  "credentials_data \<Rightarrow> credentials_meta_input option \<Rightarrow> credentials_meta_input option list" where
  "deselect_effect credentials selectedCredentials =
     (case credentials of
        Loaded saved \<Rightarrow>
          (case selectedCredentials of
             Some sel \<Rightarrow>
               if \<not> list_ex (\<lambda>c. resp_id c = input_id sel) saved then [None] else []
           | None \<Rightarrow> [])
      | _ \<Rightarrow> [])"

text \<open>
  \<open>singleCredential\<close> and the second \<open>useEffect\<close>, which hands the saved credential
  itself to \<open>onSelectCredentials\<close>: the fields a \<open>CredentialsMetaInput\<close> has are read
  from the response object.
\<close>

definition singleCredential :: "credentials_data \<Rightarrow> credentials_meta_response option" where
  "singleCredential credentials =
     (case credentials of
        Loaded saved \<Rightarrow> (case saved of [c] \<Rightarrow> Some c | _ \<Rightarrow> None)
      | _ \<Rightarrow> None)"

definition as_meta_input :: "credentials_meta_response \<Rightarrow> credentials_meta_input" where
  "as_meta_input c =
     \<lparr>input_id = resp_id c, input_type = resp_type c, input_title = resp_title c,
      input_provider = resp_provider c\<rparr>"

definition autoselect_effect ::
  "credentials_data \<Rightarrow> credentials_meta_input option \<Rightarrow> credentials_meta_input option list" where
  "autoselect_effect credentials selectedCredentials =
     (case singleCredential credentials of
        Some c \<Rightarrow> if selectedCredentials = None then [Some (as_meta_input c)] else []
      | None \<Rightarrow> [])"

text \<open>Both effects run after a render, in the order they are declared.\<close>

definition selection_effects ::
  "credentials_data \<Rightarrow> credentials_meta_input option \<Rightarrow> credentials_meta_input option list" where
  "selection_effects credentials selectedCredentials =
     deselect_effect credentials selectedCredentials @
     autoselect_effect credentials selectedCredentials"

text \<open>
  The prop \<open>selectedCredentials\<close> belongs to the parent.  A parent that stores what
  \<open>onSelectCredentials\<close> hands it renders the component next with the last value it
  was given.
\<close>

definition selection_after ::
  "credentials_meta_input option list \<Rightarrow> credentials_meta_input option
     \<Rightarrow> credentials_meta_input option" where
  "selection_after calls selectedCredentials =
     (if calls = [] then selectedCredentials else last calls)"

subsection \<open>What the component renders\<close>

text \<open>
  The component returns \<open>null\<close> while there is no directory, while it is loading, and
  when \<open>singleCredential && hideIfSingleCredentialAvailable\<close> (the prop defaults to
  \<open>true\<close>).  With no saved credential it returns a row of buttons, one per supported
  kind; only otherwise the \<open>Select\<close> whose \<open>onValueChange\<close> is \<open>handleValueChange\<close>.
  The capability flags are fields of the hook's data.  A button is named by what its
  \<open>onClick\<close> does, a \<open>SelectItem\<close> by its \<open>value\<close>, in the order of the JSX.
\<close>

datatype widget_button =
  SignInButton
| EnterAPIKeyButton
| EnterUserPasswordButton

datatype rendering =
  RendersNull
| ButtonRow "widget_button list"
| SelectItems "string list"

definition CredentialsInput_render ::
  "credentials_data \<Rightarrow> bool \<Rightarrow> bool \<Rightarrow> bool \<Rightarrow> bool \<Rightarrow> rendering" where
  "CredentialsInput_render credentials hideIfSingleCredentialAvailable
       supportsOAuth2 supportsApiKey supportsUserPassword =
     (case credentials of
        NoCredentials \<Rightarrow> RendersNull
      | IsLoading \<Rightarrow> RendersNull
      | Loaded saved \<Rightarrow>
          if singleCredential credentials \<noteq> None \<and> hideIfSingleCredentialAvailable then
            RendersNull
          else if length saved = 0 then
            ButtonRow
              ((if supportsOAuth2 then [SignInButton] else []) @
               (if supportsApiKey then [EnterAPIKeyButton] else []) @
               (if supportsUserPassword then [EnterUserPasswordButton] else []))
          else
            SelectItems
              (map resp_id (filter (\<lambda>c. resp_type c = oauth2) saved) @
               map resp_id (filter (\<lambda>c. resp_type c = api_key) saved) @
               map resp_id (filter (\<lambda>c. resp_type c = user_password) saved) @
               (if supportsOAuth2 then [''sign-in''] else []) @
               (if supportsApiKey then [''add-api-key''] else []) @
               (if supportsUserPassword then [''add-user-password''] else [])))"

subsection \<open>Scenarios\<close>

text \<open>
  The backend of the scenarios: the login request answers
  \<open>{login_url: "https://x", state_token: "abc"}\<close> and the exchange answers
  \<open>{id: "cred1", title: "u1"}\<close>.
\<close>

definition github_login_response :: "thrown + string \<times> string" where
  "github_login_response = Inr (''https://x'', ''abc'')"

definition github_backend :: "string \<Rightarrow> string \<Rightarrow> thrown + credentials_meta_response" where
  "github_backend c s =
     Inr \<lparr>resp_id = ''cred1'', resp_provider = ''github'', resp_type = oauth2,
          resp_title = Some ''u1'', resp_username = None\<rparr>"

definition failing_backend :: "string \<Rightarrow> string \<Rightarrow> thrown + credentials_meta_response" where
  "failing_backend c s = Inl (ErrorObject ''bad code'')"

text \<open>An exchange that rejects with a value that is not an \<open>Error\<close>: the string thrown.\<close>

definition throwing_backend :: "string \<Rightarrow> string \<Rightarrow> thrown + credentials_meta_response" where
  "throwing_backend c s = Inl (OtherValue ''network down'')"

text \<open>The widget once \<open>startLogin("github", ["repo"])\<close> has opened its popup.\<close>

definition github_popup_open :: widget where
  "github_popup_open =
     snd (handleOAuthLogin ''github'' [''repo''] github_login_response True initial_widget)"

text \<open>
  The sign-in button is clicked twice before the first login URL has arrived: both runs
  of \<open>handleOAuthLogin\<close> make their request, then each resumes with its own answer.
\<close>

definition github_second_login :: widget where
  "github_second_login =
     snd (handleOAuthLogin_resume (Inr (''https://y'', ''xyz'')) True
       (snd (handleOAuthLogin_resume github_login_response True
         (handleOAuthLogin_request ''github'' [''repo'']
           (handleOAuthLogin_request ''github'' [''repo''] initial_widget)))))"

text \<open>The popup answers: the exchange succeeds, the state is wrong, the provider refuses.\<close>

definition github_resolved :: widget where
  "github_resolved =
     deliver_message ''github'' (Message ''oauth_popup_result'' (Success ''c1'' ''abc''))
       github_backend github_popup_open"

definition github_state_mismatch :: widget where
  "github_state_mismatch =
     deliver_message ''github'' (Message ''oauth_popup_result'' (Success ''c1'' ''wrong''))
       github_backend github_popup_open"

definition github_remote_failure :: widget where
  "github_remote_failure =
     deliver_message ''github'' (Message ''oauth_popup_result'' (Failure ''access_denied''))
       github_backend github_popup_open"

definition saved_github :: "credentials_meta_response list" where
  "saved_github =
     [\<lparr>resp_id = ''cred1'', resp_provider = ''github'', resp_type = oauth2,
       resp_title = Some ''u1'', resp_username = Some ''octocat''\<rparr>]"

text \<open>Two saved credentials: under the default props the select is what is rendered.\<close>

definition saved_github_two :: "credentials_meta_response list" where
  "saved_github_two =
     [\<lparr>resp_id = ''cred1'', resp_provider = ''github'', resp_type = oauth2,
       resp_title = Some ''u1'', resp_username = Some ''octocat''\<rparr>,
      \<lparr>resp_id = ''key1'', resp_provider = ''github'', resp_type = api_key,
       resp_title = Some ''ci token'', resp_username = None\<rparr>]"

text \<open>
  A message resolves the session of \<open>token\<close> when \<open>handleMessage\<close> goes on to the
  exchange for it: the discriminator is right, it reports success and its state is the
  token.
\<close>

fun resolving :: "string \<Rightarrow> message_data \<Rightarrow> bool" where
  "resolving token (Message message_type (Success c s)) =
     (message_type = ''oauth_popup_result'' \<and> s = token)"
| "resolving token _ = False"

section \<open>Properties\<close>

subsection \<open>What the operations leave alone\<close>

lemma controller_abort_length [simp]:
  "length (sessions (controller_abort k r w)) = length (sessions w)"
  by (simp add: controller_abort_def Let_def)

lemma controller_abort_other:
  "c \<noteq> k \<Longrightarrow> sessions (controller_abort k r w) ! c = sessions w ! c"
  by (simp add: controller_abort_def Let_def)

lemma handleMessage_receive_sessions [simp]:
  "sessions (fst (handleMessage_receive t d w)) = sessions w"
  by (cases "(t, d, w)" rule: handleMessage_receive.cases)
     (auto split: oauth_popup_result.splits)

lemma handleMessage_receive_not_resolving:
  "\<not> resolving t d \<Longrightarrow> snd (handleMessage_receive t d w) = None"
  by (cases "(t, d, w)" rule: handleMessage_receive.cases)
     (auto split: oauth_popup_result.splits)

lemma handleMessage_settle_length [simp]:
  "length (sessions (handleMessage_settle k p out w)) = length (sessions w)"
  by (simp add: handleMessage_settle_def Let_def split: sum.splits)

lemma handleMessage_settle_other:
  "c \<noteq> k \<Longrightarrow> sessions (handleMessage_settle k p out w) ! c = sessions w ! c"
  by (simp add: handleMessage_settle_def Let_def controller_abort_other split: sum.splits)

lemma handleMessage_length [simp]:
  "length (sessions (handleMessage t k p d b w)) = length (sessions w)"
proof -
  obtain w1 r where rc: "handleMessage_receive t d w = (w1, r)"
    by (cases "handleMessage_receive t d w")
  have "sessions w1 = sessions w"
    using handleMessage_receive_sessions [of t d w] rc by simp
  then show ?thesis
    using rc by (cases r) (auto simp: handleMessage_def)
qed

lemma handleMessage_other:
  assumes "c \<noteq> k"
  shows "sessions (handleMessage t k p d b w) ! c = sessions w ! c"
proof -
  obtain w1 r where rc: "handleMessage_receive t d w = (w1, r)"
    by (cases "handleMessage_receive t d w")
  have "sessions w1 = sessions w"
    using handleMessage_receive_sessions [of t d w] rc by simp
  then show ?thesis
    using rc assms by (cases r) (auto simp: handleMessage_def handleMessage_settle_other)
qed

lemma handleMessage_not_resolving:
  assumes "\<not> resolving t d"
  shows "sessions (handleMessage t k p d b w) = sessions w"
proof -
  obtain w1 r where rc: "handleMessage_receive t d w = (w1, r)"
    by (cases "handleMessage_receive t d w")
  have "sessions w1 = sessions w"
    using handleMessage_receive_sessions [of t d w] rc by simp
  moreover have "r = None"
    using handleMessage_receive_not_resolving [OF assms, of w] rc by simp
  ultimately show ?thesis
    using rc by (simp add: handleMessage_def)
qed

lemma listener_receives_sessions [simp]:
  "sessions (fst (listener_receives d k (w, pending))) = sessions w"
proof -
  obtain w1 r where rc:
    "handleMessage_receive (state_token (sessions w ! k)) d w = (w1, r)"
    by (cases "handleMessage_receive (state_token (sessions w ! k)) d w")
  have "sessions w1 = sessions w"
    using handleMessage_receive_sessions [of "state_token (sessions w ! k)" d w] rc by simp
  then show ?thesis
    using rc by (cases r) (auto simp: listener_receives_def)
qed

lemma listener_receives_pending:
  assumes "\<not> resolving (state_token (sessions w ! c)) d"
    and "c \<notin> fst ` set pending"
  shows "c \<notin> fst ` set (snd (listener_receives d k (w, pending)))"
proof -
  obtain w1 r where rc:
    "handleMessage_receive (state_token (sessions w ! k)) d w = (w1, r)"
    by (cases "handleMessage_receive (state_token (sessions w ! k)) d w")
  show ?thesis
  proof (cases "k = c")
    case True
    then have "r = None"
      using handleMessage_receive_not_resolving [OF assms(1), of w] rc by simp
    then show ?thesis
      using rc assms(2) by (simp add: listener_receives_def)
  next
    case False
    then show ?thesis
      using rc assms(2) by (cases r) (auto simp: listener_receives_def)
  qed
qed

lemma fold_listener_receives_keeps:
  "\<not> resolving (state_token (sessions (fst acc) ! c)) d \<Longrightarrow> c \<notin> fst ` set (snd acc) \<Longrightarrow>
   sessions (fst (fold (listener_receives d) ks acc)) = sessions (fst acc) \<and>
   c \<notin> fst ` set (snd (fold (listener_receives d) ks acc))"
proof (induction ks arbitrary: acc)
  case Nil
  then show ?case by simp
next
  case (Cons k ks)
  obtain w pending where acc: "acc = (w, pending)" by (cases acc)
  have keep: "sessions (fst (listener_receives d k acc)) = sessions (fst acc)"
    using acc by simp
  have pend: "c \<notin> fst ` set (snd (listener_receives d k acc))"
    using Cons.prems acc listener_receives_pending [of w c d pending k] by simp
  have "\<not> resolving (state_token (sessions (fst (listener_receives d k acc)) ! c)) d"
    using Cons.prems(1) keep by simp
  from Cons.IH [OF this pend] keep show ?case by simp
qed

lemma fold_exchange_settles_keeps:
  "c \<notin> fst ` set pending \<Longrightarrow>
   sessions (fold (exchange_settles p b) pending w) ! c = sessions w ! c \<and>
   length (sessions (fold (exchange_settles p b) pending w)) = length (sessions w)"
proof (induction pending arbitrary: w)
  case Nil
  then show ?case by simp
next
  case (Cons call pending)
  obtain k x s where call: "call = (k, x, s)" by (cases call)
  have ne: "c \<noteq> k" and rest: "c \<notin> fst ` set pending"
    using Cons.prems call by auto
  have step: "sessions (exchange_settles p b call w) ! c = sessions w ! c"
    "length (sessions (exchange_settles p b call w)) = length (sessions w)"
    using ne call by (simp_all add: exchange_settles_def handleMessage_settle_other)
  from Cons.IH [OF rest, of "exchange_settles p b call w"] step show ?case by simp
qed

lemma deliver_message_keeps:
  assumes "\<not> resolving (state_token (sessions w ! c)) d"
  shows "sessions (deliver_message p d b w) ! c = sessions w ! c \<and>
         length (sessions (deliver_message p d b w)) = length (sessions w)"
proof -
  obtain w1 pending where f:
    "fold (listener_receives d) [0..<length (sessions w)] (w, []) = (w1, pending)"
    by (cases "fold (listener_receives d) [0..<length (sessions w)] (w, [])")
  have "sessions w1 = sessions w \<and> c \<notin> fst ` set pending"
    using fold_listener_receives_keeps [of "(w, [])" c d "[0..<length (sessions w)]"]
      assms f by simp
  then show ?thesis
    using fold_exchange_settles_keeps [of c pending p b w1] f
    by (simp add: deliver_message_def)
qed

lemma deliver_all_keeps:
  "\<forall>m \<in> set msgs. \<not> resolving (state_token (sessions w ! c)) (fst m) \<Longrightarrow>
   sessions (fold (\<lambda>m. deliver_message p (fst m) (snd m)) msgs w) ! c = sessions w ! c \<and>
   length (sessions (fold (\<lambda>m. deliver_message p (fst m) (snd m)) msgs w)) =
     length (sessions w)"
proof (induction msgs arbitrary: w)
  case Nil
  then show ?case by simp
next
  case (Cons m msgs)
  have nr: "\<not> resolving (state_token (sessions w ! c)) (fst m)"
    using Cons.prems by simp
  note keep = deliver_message_keeps [OF nr, of p "snd m"]
  have "\<forall>x \<in> set msgs.
          \<not> resolving (state_token (sessions (deliver_message p (fst m) (snd m) w) ! c)) (fst x)"
    using Cons.prems keep by simp
  from Cons.IH [OF this] keep show ?case by simp
qed

lemma login_session:
  "sessions (snd (handleOAuthLogin provider scopes (Inr (url, token)) True w)) =
     sessions w @ [\<lparr>state_token = token, login_url = url, popup_closed = False,
                    abort_reason = None, listener_registered = True,
                    timer_armed = Some 300000\<rparr>]"
  by (simp add: handleOAuthLogin_def handleOAuthLogin_request_def handleOAuthLogin_resume_def)

lemma timeout_fires_live:
  assumes "k < length (sessions w)" "abort_reason (sessions w ! k) = None"
    "timer_armed (sessions w ! k) \<noteq> None"
  shows "abort_reason (sessions (timeout_fires k w) ! k) = Some ''timeout''"
    and "popup_closed (sessions (timeout_fires k w) ! k)"
    and "\<not> listener_registered (sessions (timeout_fires k w) ! k)"
    and "timer_armed (sessions (timeout_fires k w) ! k) = None"
    and "oAuthError (timeout_fires k w) = Some ''OAuth flow timed out''"
    and "\<not> isOAuth2FlowInProgress (timeout_fires k w)"
  using assms by (simp_all add: timeout_fires_def controller_abort_def Let_def)

lemma no_saved_iff:
  "(\<forall>c \<in> set saved. resp_id c \<noteq> v) = (find (\<lambda>c. resp_id c = v) saved = None)"
  by (auto simp: find_None_iff)

subsection \<open>The scenario widgets, evaluated\<close>

lemma github_popup_open_eq:
  "github_popup_open =
     \<lparr>isAPICredentialsModalOpen = False,
      isUserPasswordCredentialsModalOpen = False,
      isOAuth2FlowInProgress = True,
      oAuthPopupController = Some 0,
      oAuthError = None,
      sessions = [\<lparr>state_token = ''abc'', login_url = ''https://x'', popup_closed = False,
                   abort_reason = None, listener_registered = True,
                   timer_armed = Some 300000\<rparr>],
      oAuthLogin_calls = [(''github'', [''repo''])],
      oAuthCallback_calls = [],
      onSelectCredentials_calls = []\<rparr>"
  by (simp add: github_popup_open_def github_login_response_def initial_widget_def
      handleOAuthLogin_def handleOAuthLogin_request_def handleOAuthLogin_resume_def)

lemma deliver_message_single:
  assumes "length (sessions w) = 1"
  shows "deliver_message p d b w =
           (if listener_registered (sessions w ! 0)
            then handleMessage (state_token (sessions w ! 0)) 0 p d b w else w)"
proof -
  obtain w1 r where rc:
    "handleMessage_receive (state_token (sessions w ! 0)) d w = (w1, r)"
    by (cases "handleMessage_receive (state_token (sessions w ! 0)) d w")
  show ?thesis
    using assms rc
    by (cases r)
       (auto simp: deliver_message_def listener_receives_def exchange_settles_def
          handleMessage_def)
qed

lemmas run_defs = deliver_message_single handleMessage_def
  handleMessage_settle_def controller_abort_def timeout_fires_def waiting_modal_onClose_def

subsection \<open>The handshake\<close>

text \<open>
  Claim C8.  The happy path: \<open>startLogin("github", ["repo"])\<close>, the API answers
  \<open>{login_url: "https://x", state_token: "abc"}\<close>, the popup opens at that URL, the
  message \<open>{message_type: "oauth_popup_result", success: true, code: "c1", state: "abc"}\<close>
  arrives and the exchange, called with that code and state, answers
  \<open>{id: "cred1", title: "u1"}\<close>.  The caller's \<open>onSelectCredentials\<close> is invoked once,
  with exactly \<open>{id: "cred1", type: "oauth2", title: "u1", provider: "github"}\<close>.
\<close>

theorem happy_path_reports_credential:
  "onSelectCredentials_calls github_resolved =
     [Some \<lparr>input_id = ''cred1'', input_type = oauth2, input_title = Some ''u1'',
             input_provider = ''github''\<rparr>]
   \<and> oAuthLogin_calls github_popup_open = [(''github'', [''repo''])]
   \<and> map login_url (sessions github_popup_open) = [''https://x'']
   \<and> oAuthCallback_calls github_resolved = [(''c1'', ''abc'')]"
  by (simp add: github_resolved_def github_popup_open_eq run_defs github_backend_def)

text \<open>
  Claim C1.  A success message whose \<open>state\<close> is not the session's \<open>state_token\<close>, for
  any two different strings: the handler sets the error ``Invalid state token received'',
  clears the in-progress flag and changes nothing else; so it makes no call to
  \<open>oAuthCallback\<close> and hands no credential to \<open>onSelectCredentials\<close>.
\<close>

theorem state_mismatch_rejected:
  assumes "s \<noteq> token"
  shows "handleMessage token controller provider
           (Message ''oauth_popup_result'' (Success c s)) backend w =
         w\<lparr>oAuthError := Some ''Invalid state token received'',
           isOAuth2FlowInProgress := False\<rparr>
       \<and> oAuthError (handleMessage token controller provider
           (Message ''oauth_popup_result'' (Success c s)) backend w) =
           Some ''Invalid state token received''
       \<and> oAuthCallback_calls (handleMessage token controller provider
           (Message ''oauth_popup_result'' (Success c s)) backend w) = oAuthCallback_calls w
       \<and> onSelectCredentials_calls (handleMessage token controller provider
           (Message ''oauth_popup_result'' (Success c s)) backend w) =
           onSelectCredentials_calls w"
  using assms by (simp add: handleMessage_def)

theorem state_mismatch_rejected_witness:
  "''wrong'' \<noteq> ''abc''
   \<and> oAuthError (handleMessage ''abc'' 0 ''github''
        (Message ''oauth_popup_result'' (Success ''c1'' ''wrong'')) github_backend
        github_popup_open) = Some ''Invalid state token received''
   \<and> oAuthCallback_calls (handleMessage ''abc'' 0 ''github''
        (Message ''oauth_popup_result'' (Success ''c1'' ''wrong'')) github_backend
        github_popup_open) = []
   \<and> onSelectCredentials_calls (handleMessage ''abc'' 0 ''github''
        (Message ''oauth_popup_result'' (Success ''c1'' ''wrong'')) github_backend
        github_popup_open) = []"
proof -
  have h: "''wrong'' \<noteq> ''abc''" by simp
  have logs: "oAuthCallback_calls github_popup_open = []"
    "onSelectCredentials_calls github_popup_open = []"
    by (simp_all add: github_popup_open_eq)
  from state_mismatch_rejected [OF h, of 0 "''github''" "''c1''" github_backend
      github_popup_open]
  show ?thesis using h logs by simp
qed

text \<open>
  What the failure branch of the handler does, for any message text: it reports
  ``OAuth flow failed: '' followed by the remote text, clears the in-progress flag, and
  leaves every session as it was.
\<close>

lemma handleMessage_failure:
  "handleMessage token controller provider
     (Message ''oauth_popup_result'' (Failure m)) backend w =
   w\<lparr>oAuthError := Some (''OAuth flow failed: '' @ m), isOAuth2FlowInProgress := False\<rparr>"
  by (simp add: handleMessage_def)

text \<open>
  Claim C3, on the code.  The popup of the scenario answers \<open>{message_type:
  "oauth_popup_result", success: false, message: "access_denied"}\<close>.  The error with the
  remote text is reported and the flow is declared over, but the session is not
  cancelled: its controller is not aborted, its listener is still registered, its popup
  has not been closed and its timer is still armed.
\<close>

theorem remote_failure_leaves_session_live:
  "oAuthError github_remote_failure = Some ''OAuth flow failed: access_denied''
   \<and> isOAuth2FlowInProgress github_remote_failure = False
   \<and> abort_reason (sessions github_remote_failure ! 0) = None
   \<and> listener_registered (sessions github_remote_failure ! 0) = True
   \<and> popup_closed (sessions github_remote_failure ! 0) = False
   \<and> timer_armed (sessions github_remote_failure ! 0) = Some 300000"
  by (simp add: github_remote_failure_def github_popup_open_eq run_defs)

text \<open>
  Claim C7.  A success message with the session's own state arrives while the
  controller is not aborted, and the exchange fails with \<open>error\<close>.  The handler has made
  the one exchange call and reports ``Error in OAuth callback: '' followed by the cause:
  the \<open>message\<close> of an \<open>Error\<close>, the string form of any other thrown value.  It hands
  no credential to the caller, and still aborts the controller with reason \<open>success\<close>:
  the popup is closed, the listener removed and the in-progress flag cleared.
\<close>

theorem exchange_failure_still_aborts:
  assumes "k < length (sessions w)" and "abort_reason (sessions w ! k) = None"
    and "backend c token = Inl error"
    and "w' = handleMessage token k provider
                (Message ''oauth_popup_result'' (Success c token)) backend w"
  shows "oAuthError w' =
           Some (''Error in OAuth callback: '' @
                 (case error of ErrorObject m \<Rightarrow> m | OtherValue text \<Rightarrow> text))
       \<and> abort_reason (sessions w' ! k) = Some ''success''
       \<and> popup_closed (sessions w' ! k)
       \<and> \<not> listener_registered (sessions w' ! k)
       \<and> \<not> isOAuth2FlowInProgress w'
       \<and> oAuthCallback_calls w' = oAuthCallback_calls w @ [(c, token)]
       \<and> onSelectCredentials_calls w' = onSelectCredentials_calls w"
  using assms
  by (cases error)
     (simp_all add: handleMessage_def handleMessage_settle_def controller_abort_def)

theorem exchange_failure_still_aborts_witness:
  "0 < length (sessions github_popup_open)
   \<and> abort_reason (sessions github_popup_open ! 0) = None
   \<and> failing_backend ''c1'' ''abc'' = Inl (ErrorObject ''bad code'')
   \<and> throwing_backend ''c1'' ''abc'' = Inl (OtherValue ''network down'')
   \<and> oAuthError (handleMessage ''abc'' 0 ''github''
        (Message ''oauth_popup_result'' (Success ''c1'' ''abc'')) failing_backend
        github_popup_open) = Some ''Error in OAuth callback: bad code''
   \<and> oAuthError (handleMessage ''abc'' 0 ''github''
        (Message ''oauth_popup_result'' (Success ''c1'' ''abc'')) throwing_backend
        github_popup_open) = Some ''Error in OAuth callback: network down''
   \<and> abort_reason (sessions (handleMessage ''abc'' 0 ''github''
        (Message ''oauth_popup_result'' (Success ''c1'' ''abc'')) failing_backend
        github_popup_open) ! 0) = Some ''success''
   \<and> abort_reason (sessions (handleMessage ''abc'' 0 ''github''
        (Message ''oauth_popup_result'' (Success ''c1'' ''abc'')) throwing_backend
        github_popup_open) ! 0) = Some ''success''
   \<and> popup_closed (sessions (handleMessage ''abc'' 0 ''github''
        (Message ''oauth_popup_result'' (Success ''c1'' ''abc'')) failing_backend
        github_popup_open) ! 0)
   \<and> popup_closed (sessions (handleMessage ''abc'' 0 ''github''
        (Message ''oauth_popup_result'' (Success ''c1'' ''abc'')) throwing_backend
        github_popup_open) ! 0)"
proof -
  have h1: "0 < length (sessions github_popup_open)"
    and h2: "abort_reason (sessions github_popup_open ! 0) = None"
    by (simp_all add: github_popup_open_eq)
  have h3: "failing_backend ''c1'' ''abc'' = Inl (ErrorObject ''bad code'')"
    by (simp add: failing_backend_def)
  have h4: "throwing_backend ''c1'' ''abc'' = Inl (OtherValue ''network down'')"
    by (simp add: throwing_backend_def)
  note an_error =
    exchange_failure_still_aborts [of 0 github_popup_open failing_backend "''c1''" "''abc''"
      "ErrorObject ''bad code''" _ "''github''", OF h1 h2 h3 refl]
  note a_string =
    exchange_failure_still_aborts [of 0 github_popup_open throwing_backend "''c1''" "''abc''"
      "OtherValue ''network down''" _ "''github''", OF h1 h2 h4 refl]
  from an_error a_string show ?thesis using h1 h2 h3 h4 by simp
qed

text \<open>
  Claim C6.  A session started by \<open>handleOAuthLogin\<close> has a timer of
  \<open>5 * 60 * 1000\<close> milliseconds armed.  Whatever messages arrive after that, as long as
  none of them resolves the session (none is a success message carrying its state token),
  when the timer fires the controller is aborted with reason \<open>timeout\<close>, the popup is
  closed, the listener removed, the in-progress flag cleared, and the error
  ``OAuth flow timed out'' is reported.
\<close>

theorem timeout_cancels_unresolved_session:
  assumes "\<forall>m \<in> set msgs. \<not> resolving token (fst m)"
    and w1_def: "w1 = snd (handleOAuthLogin provider scopes (Inr (url, token)) True w)"
    and w2_def: "w2 = fold (\<lambda>m. deliver_message provider (fst m) (snd m)) msgs w1"
    and w3_def: "w3 = timeout_fires (length (sessions w)) w2"
  shows "timer_armed (sessions w1 ! length (sessions w)) = Some (5 * 60 * 1000)
       \<and> abort_reason (sessions w3 ! length (sessions w)) = Some ''timeout''
       \<and> popup_closed (sessions w3 ! length (sessions w))
       \<and> \<not> listener_registered (sessions w3 ! length (sessions w))
       \<and> oAuthError w3 = Some ''OAuth flow timed out''
       \<and> \<not> isOAuth2FlowInProgress w3"
proof -
  let ?k = "length (sessions w)"
  have s1: "sessions w1 ! ?k =
      \<lparr>state_token = token, login_url = url, popup_closed = False, abort_reason = None,
       listener_registered = True, timer_armed = Some 300000\<rparr>"
    and l1: "length (sessions w1) = Suc ?k"
    unfolding w1_def by (simp_all add: login_session)
  have "\<forall>m \<in> set msgs. \<not> resolving (state_token (sessions w1 ! ?k)) (fst m)"
    using assms(1) s1 by simp
  from deliver_all_keeps [OF this, of provider]
  have s2: "sessions w2 ! ?k = sessions w1 ! ?k" and l2: "length (sessions w2) = Suc ?k"
    unfolding w2_def using l1 by simp_all
  have live: "?k < length (sessions w2)" "abort_reason (sessions w2 ! ?k) = None"
    "timer_armed (sessions w2 ! ?k) \<noteq> None"
    using s1 s2 l2 by simp_all
  show ?thesis
    unfolding w3_def using timeout_fires_live [OF live] s1 by simp
qed

theorem timeout_cancels_unresolved_session_witness:
  "\<not> resolving ''abc'' (Message ''oauth_popup_result'' (Failure ''denied''))
   \<and> \<not> resolving ''abc'' (Message ''oauth_popup_result'' (Success ''c1'' ''wrong''))
   \<and> \<not> resolving ''abc'' NotAnObject
   \<and> timer_armed (sessions github_popup_open ! 0) = Some 300000
   \<and> abort_reason (sessions (timeout_fires 0
        (fold (\<lambda>m. deliver_message ''github'' (fst m) (snd m))
           [(Message ''oauth_popup_result'' (Failure ''denied''), github_backend),
            (Message ''oauth_popup_result'' (Success ''c1'' ''wrong''), github_backend),
            (NotAnObject, github_backend)]
           github_popup_open)) ! 0) = Some ''timeout''
   \<and> popup_closed (sessions (timeout_fires 0
        (fold (\<lambda>m. deliver_message ''github'' (fst m) (snd m))
           [(Message ''oauth_popup_result'' (Failure ''denied''), github_backend),
            (Message ''oauth_popup_result'' (Success ''c1'' ''wrong''), github_backend),
            (NotAnObject, github_backend)]
           github_popup_open)) ! 0)
   \<and> oAuthError (timeout_fires 0
        (fold (\<lambda>m. deliver_message ''github'' (fst m) (snd m))
           [(Message ''oauth_popup_result'' (Failure ''denied''), github_backend),
            (Message ''oauth_popup_result'' (Success ''c1'' ''wrong''), github_backend),
            (NotAnObject, github_backend)]
           github_popup_open)) = Some ''OAuth flow timed out''"
proof -
  have h: "\<forall>m \<in> set [(Message ''oauth_popup_result'' (Failure ''denied''), github_backend),
                (Message ''oauth_popup_result'' (Success ''c1'' ''wrong''), github_backend),
                (NotAnObject, github_backend)].
       \<not> resolving ''abc'' (fst m)"
    by simp
  have w1: "github_popup_open =
      snd (handleOAuthLogin ''github'' [''repo''] (Inr (''https://x'', ''abc'')) True
             initial_widget)"
    by (simp add: github_popup_open_def github_login_response_def)
  have z: "length (sessions initial_widget) = 0"
    by (simp add: initial_widget_def)
  from timeout_cancels_unresolved_session [OF h w1 refl refl] z show ?thesis by simp
qed

subsection \<open>Tear-down\<close>

text \<open>
  Claim C2, as stated: after any terminal state the listener and the timer are both
  deactivated and nothing is left live.  In the scenario, after the exchange has
  succeeded the timer is still armed, and when it fires it reports a timeout.  After a
  state mismatch the listener is still registered, the popup has not been closed and the
  timer is armed; a valid success message delivered then reaches the handler, which
  invokes the caller's callback.
\<close>

theorem terminal_states_leak_counterexample:
  "timer_armed (sessions github_resolved ! 0) = Some 300000
   \<and> oAuthError (timeout_fires 0 github_resolved) = Some ''OAuth flow timed out''
   \<and> listener_registered (sessions github_state_mismatch ! 0)
   \<and> \<not> popup_closed (sessions github_state_mismatch ! 0)
   \<and> timer_armed (sessions github_state_mismatch ! 0) = Some 300000
   \<and> onSelectCredentials_calls
       (deliver_message ''github'' (Message ''oauth_popup_result'' (Success ''c1'' ''abc''))
          github_backend github_state_mismatch) =
     [Some \<lparr>input_id = ''cred1'', input_type = oauth2, input_title = Some ''u1'',
             input_provider = ''github''\<rparr>]"
  by (simp add: github_resolved_def github_state_mismatch_def github_popup_open_eq run_defs
      github_backend_def)

text \<open>
  Claim C2, amended.  A session whose controller is not yet aborted ends in one of three
  ways that abort it: the exchange settles (with a credential or an error), the waiting
  dialog is closed while it holds this session's controller, or the session's timer
  fires.  After each of them the popup is closed and the listener is removed, so a message
  delivered afterwards does not reach the session's handler: it starts no exchange and
  changes nothing.  When this is the only session, no message of any shape changes the
  widget, and there is no further callback invocation.
\<close>

theorem aborted_session_is_torn_down:
  assumes "k < length (sessions w)" and "abort_reason (sessions w ! k) = None"
    and "w' = handleMessage_settle k provider outcome w
         \<or> (oAuthPopupController w = Some k \<and> w' = waiting_modal_onClose w)
         \<or> (timer_armed (sessions w ! k) \<noteq> None \<and> w' = timeout_fires k w)"
  shows "abort_reason (sessions w' ! k) \<noteq> None
       \<and> popup_closed (sessions w' ! k)
       \<and> \<not> listener_registered (sessions w' ! k)
       \<and> listener_receives d k (w', pending) = (w', pending)
       \<and> (length (sessions w) = 1 \<longrightarrow> deliver_message p d b w' = w')"
proof -
  have torn: "abort_reason (sessions w' ! k) \<noteq> None \<and> popup_closed (sessions w' ! k)
      \<and> \<not> listener_registered (sessions w' ! k) \<and> length (sessions w') = length (sessions w)"
    using assms
    by (auto simp: handleMessage_settle_def waiting_modal_onClose_def timeout_fires_def
        controller_abort_def split: sum.splits)
  then have quiet: "listener_receives d k (w', pending) = (w', pending)"
    by (simp add: listener_receives_def)
  have single: "length (sessions w) = 1 \<longrightarrow> deliver_message p d b w' = w'"
  proof
    assume one: "length (sessions w) = 1"
    then have "k = 0" using assms(1) by simp
    then show "deliver_message p d b w' = w'"
      using one torn by (simp add: deliver_message_single)
  qed
  from torn quiet single show ?thesis by simp
qed

theorem aborted_session_is_torn_down_witness:
  "0 < length (sessions github_popup_open)
   \<and> abort_reason (sessions github_popup_open ! 0) = None
   \<and> oAuthPopupController github_popup_open = Some 0
   \<and> length (sessions github_popup_open) = 1
   \<and> popup_closed (sessions (waiting_modal_onClose github_popup_open) ! 0)
   \<and> \<not> listener_registered (sessions (waiting_modal_onClose github_popup_open) ! 0)
   \<and> deliver_message ''github'' (Message ''oauth_popup_result'' (Success ''c1'' ''abc''))
        github_backend (waiting_modal_onClose github_popup_open) =
      waiting_modal_onClose github_popup_open"
proof -
  have h1: "0 < length (sessions github_popup_open)"
    and h2: "abort_reason (sessions github_popup_open ! 0) = None"
    and h3: "oAuthPopupController github_popup_open = Some 0"
    and one: "length (sessions github_popup_open) = 1"
    by (simp_all add: github_popup_open_eq)
  have h4: "waiting_modal_onClose github_popup_open =
        handleMessage_settle 0 ''github'' (Inl (ErrorObject [])) github_popup_open
      \<or> (oAuthPopupController github_popup_open = Some 0
          \<and> waiting_modal_onClose github_popup_open = waiting_modal_onClose github_popup_open)
      \<or> (timer_armed (sessions github_popup_open ! 0) \<noteq> None
          \<and> waiting_modal_onClose github_popup_open = timeout_fires 0 github_popup_open)"
    using h3 by simp
  from aborted_session_is_torn_down [OF h1 h2 h4,
      of "Message ''oauth_popup_result'' (Success ''c1'' ''abc'')" "[]" "''github''"
        github_backend]
  show ?thesis using h1 h2 h3 one by simp
qed

subsection \<open>Starting a login\<close>

text \<open>
  Claim C4, as stated: starting a login while a session is active creates no second
  concurrent session.  It does: when sign-in is clicked twice before the first login URL
  has arrived there are two sessions, each with its listener registered, its popup open,
  its controller not aborted and its timer armed.
\<close>

theorem second_login_counterexample:
  "map listener_registered (sessions github_second_login) = [True, True]
   \<and> map popup_closed (sessions github_second_login) = [False, False]
   \<and> map abort_reason (sessions github_second_login) = [None, None]
   \<and> map timer_armed (sessions github_second_login) = [Some 300000, Some 300000]"
  by (simp add: github_second_login_def github_login_response_def initial_widget_def
      handleOAuthLogin_request_def handleOAuthLogin_resume_def)

text \<open>
  Claim C4, amended.  Every \<open>handleOAuthLogin\<close> that gets a login URL and a popup adds
  exactly one session to those there are and leaves the earlier ones as they were.  The
  new session has its popup open at the login URL, its listener registered for the new
  state token, its timer of \<open>5 * 60 * 1000\<close> milliseconds armed and its controller not
  aborted.  The widget keeps one controller only, that of the new session, so closing
  the waiting dialog cancels the new session and no earlier one.
\<close>

theorem login_adds_session:
  "fst (handleOAuthLogin provider scopes (Inr (url, token)) True w) = None
   \<and> sessions (snd (handleOAuthLogin provider scopes (Inr (url, token)) True w)) =
      sessions w @
        [\<lparr>state_token = token, login_url = url, popup_closed = False, abort_reason = None,
          listener_registered = True, timer_armed = Some (5 * 60 * 1000)\<rparr>]
   \<and> oAuthPopupController (snd (handleOAuthLogin provider scopes (Inr (url, token)) True w)) =
      Some (length (sessions w))
   \<and> sessions (waiting_modal_onClose
        (snd (handleOAuthLogin provider scopes (Inr (url, token)) True w))) =
      sessions w @
        [\<lparr>state_token = token, login_url = url, popup_closed = True,
          abort_reason = Some ''canceled'', listener_registered = False,
          timer_armed = Some (5 * 60 * 1000)\<rparr>]"
  by (simp add: handleOAuthLogin_def handleOAuthLogin_request_def handleOAuthLogin_resume_def
      waiting_modal_onClose_def controller_abort_def)

theorem login_adds_session_witness:
  "sessions (snd (handleOAuthLogin ''github'' [''repo''] (Inr (''https://y'', ''xyz'')) True
      github_remote_failure)) =
     [\<lparr>state_token = ''abc'', login_url = ''https://x'', popup_closed = False,
       abort_reason = None, listener_registered = True, timer_armed = Some 300000\<rparr>,
      \<lparr>state_token = ''xyz'', login_url = ''https://y'', popup_closed = False,
       abort_reason = None, listener_registered = True, timer_armed = Some 300000\<rparr>]
   \<and> oAuthPopupController
      (snd (handleOAuthLogin ''github'' [''repo''] (Inr (''https://y'', ''xyz'')) True
              github_remote_failure)) = Some 1
   \<and> sessions (waiting_modal_onClose
      (snd (handleOAuthLogin ''github'' [''repo''] (Inr (''https://y'', ''xyz'')) True
              github_remote_failure))) =
     [\<lparr>state_token = ''abc'', login_url = ''https://x'', popup_closed = False,
       abort_reason = None, listener_registered = True, timer_armed = Some 300000\<rparr>,
      \<lparr>state_token = ''xyz'', login_url = ''https://y'', popup_closed = True,
       abort_reason = Some ''canceled'', listener_registered = False,
       timer_armed = Some 300000\<rparr>]"
proof -
  have before: "sessions github_remote_failure =
      [\<lparr>state_token = ''abc'', login_url = ''https://x'', popup_closed = False,
        abort_reason = None, listener_registered = True, timer_armed = Some 300000\<rparr>]"
    by (simp add: github_remote_failure_def github_popup_open_eq run_defs)
  from login_adds_session [of "''github''" "[''repo'']" "''https://y''" "''xyz''"
      github_remote_failure]
  show ?thesis using before by simp
qed

text \<open>
  Claim C5, on the code.  The login URL arrives and \<open>window.open\<close> returns no handle:
  \<open>handleOAuthLogin\<close> rejects with the popup error, and no session, listener, timer or
  controller exists.  But \<open>setOAuth2FlowInProgress(true)\<close> ran before the popup was
  opened and nothing takes it back: the widget is left in progress, and closing the
  waiting dialog, which has no controller to abort, does not clear the flag either.
\<close>

theorem popup_blocked_leaves_flow_in_progress:
  "fst (handleOAuthLogin ''github'' [''repo''] github_login_response False initial_widget) =
     Some (PopupBlockedError
       ''Failed to open popup window. Please allow popups for this site.'')
   \<and> sessions (snd (handleOAuthLogin ''github'' [''repo''] github_login_response False
        initial_widget)) = []
   \<and> oAuthPopupController (snd (handleOAuthLogin ''github'' [''repo''] github_login_response
        False initial_widget)) = None
   \<and> isOAuth2FlowInProgress (snd (handleOAuthLogin ''github'' [''repo'']
        github_login_response False initial_widget)) = True
   \<and> isOAuth2FlowInProgress (waiting_modal_onClose (snd (handleOAuthLogin ''github''
        [''repo''] github_login_response False initial_widget))) = True"
  by (simp add: github_login_response_def initial_widget_def
      handleOAuthLogin_def handleOAuthLogin_request_def handleOAuthLogin_resume_def
      waiting_modal_onClose_def)

subsection \<open>The select and the selection\<close>

text \<open>
  Claim C9.  For a value other than \<open>"sign-in"\<close> and \<open>"add-api-key"\<close>,
  \<open>handleValueChange\<close> looks the value up among the ids of the saved credentials and
  reads the result's fields without a check: it throws a TypeError exactly when no saved
  credential has that id.  \<open>handleValueChange\<close> is attached to the select, which the
  component renders exactly when the directory is loaded with at least one saved
  credential and not with a single one hidden by \<open>hideIfSingleCredentialAvailable\<close>; the
  select then offers the value \<open>"add-user-password"\<close> whenever \<open>supportsUserPassword\<close>
  holds.  When no saved credential has that id, choosing it throws, and in no case does
  choosing it open the user-password modal.
\<close>

theorem handleValueChange_unguarded_lookup:
  "(newValue \<noteq> ''sign-in'' \<and> newValue \<noteq> ''add-api-key'' \<longrightarrow>
      (handleValueChange provider scopes saved login_response popup_opens newValue w =
         Inl TypeError) =
      (\<forall>c \<in> set saved. resp_id c \<noteq> newValue))
   \<and> ((\<exists>items. CredentialsInput_render (Loaded saved) hideIfSingleCredentialAvailable
          supportsOAuth2 supportsApiKey supportsUserPassword = SelectItems items) =
       (saved \<noteq> [] \<and> \<not> (length saved = 1 \<and> hideIfSingleCredentialAvailable)))
   \<and> (\<forall>items. CredentialsInput_render (Loaded saved) hideIfSingleCredentialAvailable
          supportsOAuth2 supportsApiKey supportsUserPassword = SelectItems items
          \<and> supportsUserPassword \<longrightarrow>
        ''add-user-password'' \<in> set items)
   \<and> ((\<forall>c \<in> set saved. resp_id c \<noteq> ''add-user-password'') \<longrightarrow>
        handleValueChange provider scopes saved login_response popup_opens
          ''add-user-password'' w = Inl TypeError)
   \<and> (\<forall>w'. handleValueChange provider scopes saved login_response popup_opens
          ''add-user-password'' w = Inr w' \<longrightarrow>
        isUserPasswordCredentialsModalOpen w' = isUserPasswordCredentialsModalOpen w)"
proof -
  have single: "(singleCredential (Loaded saved) \<noteq> None) = (length saved = 1)"
    by (cases saved) (auto simp: singleCredential_def split: list.splits)
  have lookup: "newValue \<noteq> ''sign-in'' \<and> newValue \<noteq> ''add-api-key'' \<longrightarrow>
      (handleValueChange provider scopes saved login_response popup_opens newValue w =
         Inl TypeError) =
      (\<forall>c \<in> set saved. resp_id c \<noteq> newValue)"
    by (auto simp: handleValueChange_def no_saved_iff split: option.splits)
  have rendered: "(\<exists>items. CredentialsInput_render (Loaded saved)
          hideIfSingleCredentialAvailable supportsOAuth2 supportsApiKey supportsUserPassword =
          SelectItems items) =
       (saved \<noteq> [] \<and> \<not> (length saved = 1 \<and> hideIfSingleCredentialAvailable))"
    using single by (auto simp: CredentialsInput_render_def)
  have offered: "\<forall>items. CredentialsInput_render (Loaded saved)
          hideIfSingleCredentialAvailable supportsOAuth2 supportsApiKey supportsUserPassword =
          SelectItems items \<and> supportsUserPassword \<longrightarrow>
        ''add-user-password'' \<in> set items"
    by (auto simp: CredentialsInput_render_def split: if_splits)
  have throws: "(\<forall>c \<in> set saved. resp_id c \<noteq> ''add-user-password'') \<longrightarrow>
        handleValueChange provider scopes saved login_response popup_opens
          ''add-user-password'' w = Inl TypeError"
    by (auto simp: handleValueChange_def no_saved_iff split: option.splits)
  have modal: "\<forall>w'. handleValueChange provider scopes saved login_response popup_opens
          ''add-user-password'' w = Inr w' \<longrightarrow>
        isUserPasswordCredentialsModalOpen w' = isUserPasswordCredentialsModalOpen w"
    by (auto simp: handleValueChange_def split: option.splits)
  from lookup rendered offered throws modal show ?thesis by blast
qed

theorem handleValueChange_unguarded_lookup_witness:
  "CredentialsInput_render (Loaded saved_github_two) True False False True =
     SelectItems [''cred1'', ''key1'', ''add-user-password'']
   \<and> ''add-user-password'' \<in> set [''cred1'', ''key1'', ''add-user-password'']
   \<and> ''add-user-password'' \<notin> set (map resp_id saved_github_two)
   \<and> handleValueChange ''github'' [''repo''] saved_github_two github_login_response True
        ''add-user-password'' initial_widget = Inl TypeError"
proof -
  have shown: "CredentialsInput_render (Loaded saved_github_two) True False False True =
     SelectItems [''cred1'', ''key1'', ''add-user-password'']"
    by (simp add: CredentialsInput_render_def singleCredential_def saved_github_two_def)
  have fresh: "''add-user-password'' \<notin> set (map resp_id saved_github_two)"
    by (simp add: saved_github_two_def)
  have no_id: "\<forall>c \<in> set saved_github_two. resp_id c \<noteq> ''add-user-password''"
    by (simp add: saved_github_two_def)
  from handleValueChange_unguarded_lookup [of "''add-user-password''" "''github''"
      "[''repo'']" saved_github_two github_login_response True initial_widget True False False
      True]
  have throws: "handleValueChange ''github'' [''repo''] saved_github_two
      github_login_response True ''add-user-password'' initial_widget = Inl TypeError"
    using no_id by blast
  from shown fresh throws show ?thesis by simp
qed

text \<open>
  Claim C10.  With the directory loaded: when no saved credential has the id of the
  selected credential, the first effect calls \<open>onSelectCredentials(undefined)\<close>.  Hence,
  for a parent that stores what it is handed, after the effects of a render have run the
  selection, if there is one, has the id of a saved credential.
\<close>

theorem deselect_effect_keeps_selection_saved:
  "(\<not> list_ex (\<lambda>c. resp_id c = input_id sel) saved \<longrightarrow>
      deselect_effect (Loaded saved) (Some sel) = [None])
   \<and> (\<forall>sel'. selection_after (selection_effects (Loaded saved) selectedCredentials)
                 selectedCredentials = Some sel' \<longrightarrow>
        (\<exists>c \<in> set saved. resp_id c = input_id sel'))"
  by (auto simp: deselect_effect_def autoselect_effect_def selection_effects_def
      singleCredential_def as_meta_input_def selection_after_def list_ex_iff
      split: option.splits list.splits if_splits)

theorem deselect_effect_keeps_selection_saved_witness:
  "\<not> list_ex (\<lambda>c. resp_id c = ''gone'') saved_github
   \<and> deselect_effect (Loaded saved_github)
       (Some \<lparr>input_id = ''gone'', input_type = api_key, input_title = None,
               input_provider = ''github''\<rparr>) = [None]
   \<and> selection_after (selection_effects (Loaded saved_github) None) None =
       Some (as_meta_input (hd saved_github))
   \<and> (\<exists>c \<in> set saved_github. resp_id c = input_id (as_meta_input (hd saved_github)))"
proof -
  have h: "\<not> list_ex (\<lambda>c. resp_id c = ''gone'') saved_github"
    by (simp add: saved_github_def)
  have sel: "selection_after (selection_effects (Loaded saved_github) None) None =
       Some (as_meta_input (hd saved_github))"
    by (simp add: saved_github_def selection_effects_def deselect_effect_def
        autoselect_effect_def singleCredential_def selection_after_def)
  from deselect_effect_keeps_selection_saved [of
      "\<lparr>input_id = ''gone'', input_type = api_key, input_title = None,
        input_provider = ''github''\<rparr>" saved_github None]
  show ?thesis using h sel by auto
qed

end
